theory Spec2Isabelle
  imports Main "HOL-Library.AList"
begin

section \<open>Python values, dictionaries and time\<close>

text \<open>
  The values a claims dictionary holds: \<open>None\<close>, booleans, integers, strings and
  \<open>datetime\<close> objects. A \<open>datetime\<close> is the number of microseconds since the epoch and a
  \<open>timedelta\<close> a number of microseconds; both are integers.
\<close>

datatype pyval = PNone | PBool bool | PInt int | PStr string | PDateTime int

text \<open>
  A \<open>dict\<close> keeps its keys in insertion order: an association list. \<open>d.get(k)\<close> returns
  \<open>None\<close> for a missing key; \<open>d.update(other)\<close> overwrites the keys that exist in place and
  appends the new ones, in the order of \<open>other\<close>.
\<close>

type_synonym pydict = "(string \<times> pyval) list"

definition dict_get :: "pydict \<Rightarrow> string \<Rightarrow> pyval" where
  "dict_get d k = (case map_of d k of None \<Rightarrow> PNone | Some v \<Rightarrow> v)"

definition dict_update :: "pydict \<Rightarrow> pydict \<Rightarrow> pydict" where
  "dict_update d other = foldl (\<lambda>acc kv. AList.update (fst kv) (snd kv) acc) d other"

definition timedelta_minutes :: "int \<Rightarrow> int" where
  "timedelta_minutes m = m * 60 * 1000000"

definition timedelta_days :: "int \<Rightarrow> int" where
  "timedelta_days d = d * 86400 * 1000000"

text \<open>
  \<open>datetime.min\<close> is 0001-01-01T00:00:00 and \<open>datetime.max\<close> is
  9999-12-31T23:59:59.999999; \<open>datetime + timedelta\<close> raises \<open>OverflowError\<close> outside.
\<close>

definition datetime_min :: int where
  "datetime_min = - 62135596800000000"

definition datetime_max :: int where
  "datetime_max = 253402300799999999"

definition datetime_add :: "int \<Rightarrow> int \<Rightarrow> int option" where
  "datetime_add d td =
     (if datetime_min \<le> d + td \<and> d + td \<le> datetime_max then Some (d + td) else None)"

section \<open>Exceptions\<close>

text \<open>
  \<open>HTTPException(status_code, detail, headers)\<close> of FastAPI; \<open>EncodingError\<close> stands for
  whatever \<open>jwt.encode\<close> raises, which no function of \<open>Auth\<close> catches. The \<open>JWTError\<close> of
  \<open>jwt.decode\<close> is caught where it is raised and is the \<open>None\<close> of \<open>jwt_decode\<close> below.
\<close>

datatype exn =
    HTTPException (status_code: int) (detail: string) (headers: "(string \<times> string) list option")
  | EncodingError
  | OverflowError

section \<open>The state: clock, heap and users table\<close>

text \<open>
  The \<open>User\<close> entity of \<open>entity/models.py\<close> (its \<open>contacts\<close> relationship left out);
  \<open>refresh_token\<close> is nullable. The fields carry the prefix \<open>u_\<close>.
\<close>

record user =
  u_id :: int
  u_username :: string
  u_email :: string
  u_password :: string
  u_refresh_token :: "string option"
  u_created_at :: int
  u_updated_at :: int

text \<open>
  \<open>clock w k\<close> is what the \<open>k\<close>-th next reading of the system clock returns; \<open>heap w\<close> holds
  the dictionary objects, a reference being an index; \<open>users w\<close> is the users table.
\<close>

record world =
  clock :: "nat \<Rightarrow> int"
  heap :: "pydict list"
  users :: "user list"

definition utcnow :: "world \<Rightarrow> int \<times> world" where
  "utcnow w = (clock w 0, w\<lparr>clock := (\<lambda>k. clock w (Suc k))\<rparr>)"

text \<open>\<open>d.copy()\<close> allocates a new dictionary object with the entries of \<open>d\<close>.\<close>

definition dict_copy :: "world \<Rightarrow> nat \<Rightarrow> nat \<times> world" where
  "dict_copy w r = (length (heap w), w\<lparr>heap := heap w @ [heap w ! r]\<rparr>)"

text \<open>\<open>d.update(other)\<close> on the object that \<open>r\<close> refers to.\<close>

definition dict_update_at :: "world \<Rightarrow> nat \<Rightarrow> pydict \<Rightarrow> world" where
  "dict_update_at w r other = w\<lparr>heap := (heap w)[r := dict_update (heap w ! r) other]\<rparr>"

section \<open>Collaborators\<close>

text \<open>
  The token library (\<open>jose.jwt\<close>) is not part of the repository: its two functions are
  parameters. \<open>jwt_encode claims key algorithm\<close> is \<open>None\<close> when the library raises;
  \<open>jwt_decode now token key algorithms\<close> is \<open>None\<close> when it raises \<open>JWTError\<close>, and \<open>now\<close>
  is the reading of the clock that its expiry check takes.
\<close>

record jwt =
  jwt_encode :: "pydict \<Rightarrow> string \<Rightarrow> string \<Rightarrow> string option"
  jwt_decode :: "int \<Rightarrow> string \<Rightarrow> string \<Rightarrow> string list \<Rightarrow> pydict option"

text \<open>\<open>Auth.SECRET_KEY\<close> and \<open>Auth.ALGORITHM\<close>, read from the configuration.\<close>

record auth =
  SECRET_KEY :: string
  ALGORITHM :: string

text \<open>
  Modelled from the spec: \<open>repositories_users.get_user_by_email\<close> is missing from the
  sources; the spec gives \<open>getUserByEmail(email: string) -> User | none\<close>, the matching
  user record or none. The argument is the \<open>sub\<close> claim, whatever value it holds.
\<close>

definition get_user_by_email :: "pyval \<Rightarrow> user list \<Rightarrow> user option" where
  "get_user_by_email e db = find (\<lambda>u. PStr (u_email u) = e) db"

section \<open>The \<open>Auth\<close> service\<close>

text \<open>
  The conditional expression \<open>expires_delta if expires_delta else default\<close>, with
  \<open>expires_delta: Optional[timedelta]\<close>: \<open>None\<close> is falsy, and so is the zero
  \<open>timedelta\<close>.
\<close>

definition delta_or_else :: "int option \<Rightarrow> int \<Rightarrow> int" where
  "delta_or_else expires_delta dflt =
     (case expires_delta of None \<Rightarrow> dflt | Some d \<Rightarrow> if d \<noteq> 0 then d else dflt)"

definition create_access_token ::
  "jwt \<Rightarrow> auth \<Rightarrow> world \<Rightarrow> nat \<Rightarrow> int option \<Rightarrow> (exn + string) \<times> world" where
  "create_access_token lib a w data expires_delta =
     (let (to_encode, w1) = dict_copy w data;
          (now1, w2) = utcnow w1
      in case datetime_add now1 (delta_or_else expires_delta (timedelta_minutes 15)) of
           None \<Rightarrow> (Inl OverflowError, w2)
         | Some expire \<Rightarrow>
             (let (now2, w3) = utcnow w2;
                  w4 = dict_update_at w3 to_encode
                         [(''iat'', PDateTime now2), (''exp'', PDateTime expire),
                          (''scope'', PStr ''access_token'')]
              in case jwt_encode lib (heap w4 ! to_encode) (SECRET_KEY a) (ALGORITHM a) of
                   None \<Rightarrow> (Inl EncodingError, w4)
                 | Some encoded_access_token \<Rightarrow> (Inr encoded_access_token, w4)))"

definition create_refresh_token ::
  "jwt \<Rightarrow> auth \<Rightarrow> world \<Rightarrow> nat \<Rightarrow> int option \<Rightarrow> (exn + string) \<times> world" where
  "create_refresh_token lib a w data expires_delta =
     (let (to_encode, w1) = dict_copy w data;
          (now1, w2) = utcnow w1
      in case datetime_add now1 (delta_or_else expires_delta (timedelta_days 15)) of
           None \<Rightarrow> (Inl OverflowError, w2)
         | Some expire \<Rightarrow>
             (let (now2, w3) = utcnow w2;
                  w4 = dict_update_at w3 to_encode
                         [(''iat'', PDateTime now2), (''exp'', PDateTime expire),
                          (''scope'', PStr ''refresh_token'')]
              in case jwt_encode lib (heap w4 ! to_encode) (SECRET_KEY a) (ALGORITHM a) of
                   None \<Rightarrow> (Inl EncodingError, w4)
                 | Some encoded_refresh_token \<Rightarrow> (Inr encoded_refresh_token, w4)))"

text \<open>
  \<open>jwt.decode\<close> checks the expiry against the system clock; the reading it takes is the
  first argument of \<open>jwt_decode\<close>. An \<open>HTTPException\<close> raised inside the \<open>try\<close> block is
  not a \<open>JWTError\<close> and passes the \<open>except\<close> clause.
\<close>

definition decode_refresh_token ::
  "jwt \<Rightarrow> auth \<Rightarrow> world \<Rightarrow> string \<Rightarrow> (exn + pyval) \<times> world" where
  "decode_refresh_token lib a w refresh_token =
     (let (now, w1) = utcnow w
      in case jwt_decode lib now refresh_token (SECRET_KEY a) [ALGORITHM a] of
           None \<Rightarrow> (Inl (HTTPException 401 ''Could not validate credentials'' None), w1)
         | Some payload \<Rightarrow>
             if dict_get payload ''scope'' = PStr ''refresh_token'' then
               (let email = dict_get payload ''sub''
                in if email = PNone
                   then (Inl (HTTPException 401 ''Invalid token payload'' None), w1)
                   else (Inr email, w1))
             else (Inl (HTTPException 401 ''Invalid scope for token'' None), w1))"

definition credentials_exception :: exn where
  "credentials_exception =
     HTTPException 401 ''Could not validate credentials'' (Some [(''WWW-Authenticate'', ''Bearer'')])"

definition get_current_user ::
  "jwt \<Rightarrow> auth \<Rightarrow> world \<Rightarrow> string \<Rightarrow> (exn + user) \<times> world" where
  "get_current_user lib a w token =
     (let (now, w1) = utcnow w
      in case jwt_decode lib now token (SECRET_KEY a) [ALGORITHM a] of
           None \<Rightarrow> (Inl credentials_exception, w1)
         | Some payload \<Rightarrow>
             if dict_get payload ''scope'' = PStr ''access_token'' then
               (let email = dict_get payload ''sub''
                in if email = PNone then (Inl credentials_exception, w1)
                   else (case get_user_by_email email (users w1) of
                           None \<Rightarrow> (Inl credentials_exception, w1)
                         | Some user \<Rightarrow> (Inr user, w1)))
             else (Inl credentials_exception, w1))"

section \<open>The contract of the token library\<close>

text \<open>
  Modelled from the spec: the Token Codec (\<open>jose.jwt\<close>) is a third-party library and is
  not in the sources. The spec gives its contract: decoding rejects a token whose
  \<open>expires-at\<close> has passed, and \<open>decode(encode(claims, key, alg), key, alg)\<close> reproduces
  \<open>claims\<close>. \<open>expired\<close> is the first half, \<open>codec_roundtrip\<close> the second for a token
  that has not expired.
\<close>

definition expired :: "pydict \<Rightarrow> int \<Rightarrow> bool" where
  "expired claims now = (case dict_get claims ''exp'' of PDateTime e \<Rightarrow> e < now | _ \<Rightarrow> False)"

definition codec_roundtrip :: "jwt \<Rightarrow> bool" where
  "codec_roundtrip lib =
     (\<forall>claims key alg tok now.
        jwt_encode lib claims key alg = Some tok \<and> \<not> expired claims now
        \<longrightarrow> jwt_decode lib now tok key [alg] = Some claims)"

section \<open>Concrete inputs\<close>

text \<open>
  A token library given by a finite table of the tokens it has issued: encoding looks the
  claims up, decoding looks the token up and rejects it once it has expired.
\<close>

definition table_lib :: "(string \<times> pydict) list \<Rightarrow> jwt" where
  "table_lib tbl =
     \<lparr>jwt_encode = (\<lambda>claims key alg. map_option fst (find (\<lambda>e. snd e = claims) tbl)),
      jwt_decode = (\<lambda>now tok key algs.
         case map_of tbl tok of
           None \<Rightarrow> None
         | Some p \<Rightarrow> if expired p now then None else Some p)\<rparr>"

definition demo_auth :: auth where
  "demo_auth = \<lparr>SECRET_KEY = ''s3cret'', ALGORITHM = ''HS256''\<rparr>"

definition demo_user :: user where
  "demo_user =
     \<lparr>u_id = 1, u_username = ''ann'', u_email = ''ann@example.com'', u_password = ''$2b$12$h'',
      u_refresh_token = Some ''refresh.tok'', u_created_at = 0, u_updated_at = 0\<rparr>"

text \<open>
  The clock of \<open>demo_world\<close> advances by a microsecond at each reading and that of
  \<open>frozen_world\<close> stands still; the caller's claims are the dictionary at reference 0. In
  \<open>revoked_world\<close> the stored refresh token of the user has been cleared. \<open>late_world\<close>
  is a later state, its clock past the expiry of the access token issued in \<open>demo_world\<close>.
\<close>

definition demo_world :: world where
  "demo_world =
     \<lparr>clock = (\<lambda>k. 1000 + int k), heap = [[(''sub'', PStr ''ann@example.com'')]],
      users = [demo_user]\<rparr>"

definition frozen_world :: world where
  "frozen_world =
     \<lparr>clock = (\<lambda>k. 1000), heap = [[(''sub'', PStr ''ann@example.com'')]], users = [demo_user]\<rparr>"

definition revoked_world :: world where
  "revoked_world =
     \<lparr>clock = (\<lambda>k. 1000 + int k), heap = [],
      users = [demo_user\<lparr>u_refresh_token := None\<rparr>]\<rparr>"

definition late_world :: world where
  "late_world = \<lparr>clock = (\<lambda>k. 2000 + int k), heap = [], users = [demo_user]\<rparr>"

text \<open>
  The claims of the tokens that \<open>demo_lib\<close> knows: the access and the refresh token issued
  in \<open>demo_world\<close>, the access token issued in \<open>frozen_world\<close>, an access token of a
  subject with no user record, and tokens of either scope with no \<open>sub\<close> claim.
\<close>

definition access_claims :: pydict where
  "access_claims =
     [(''sub'', PStr ''ann@example.com''), (''iat'', PDateTime 1001),
      (''exp'', PDateTime 1060), (''scope'', PStr ''access_token'')]"

definition refresh_claims :: pydict where
  "refresh_claims =
     [(''sub'', PStr ''ann@example.com''), (''iat'', PDateTime 1001),
      (''exp'', PDateTime 1296000001000), (''scope'', PStr ''refresh_token'')]"

definition frozen_claims :: pydict where
  "frozen_claims =
     [(''sub'', PStr ''ann@example.com''), (''iat'', PDateTime 1000),
      (''exp'', PDateTime 900001000), (''scope'', PStr ''access_token'')]"

definition ghost_claims :: pydict where
  "ghost_claims =
     [(''sub'', PStr ''bob@example.com''), (''exp'', PDateTime 1060),
      (''scope'', PStr ''access_token'')]"

definition nosub_access_claims :: pydict where
  "nosub_access_claims = [(''exp'', PDateTime 1060), (''scope'', PStr ''access_token'')]"

definition nosub_refresh_claims :: pydict where
  "nosub_refresh_claims = [(''exp'', PDateTime 1060), (''scope'', PStr ''refresh_token'')]"

definition demo_tokens :: "(string \<times> pydict) list" where
  "demo_tokens =
     [(''access.tok'', access_claims), (''refresh.tok'', refresh_claims),
      (''frozen.tok'', frozen_claims), (''ghost.tok'', ghost_claims),
      (''nosub.access'', nosub_access_claims), (''nosub.refresh'', nosub_refresh_claims)]"

definition demo_lib :: jwt where
  "demo_lib = table_lib demo_tokens"

section \<open>Auxiliary facts\<close>

subsection \<open>Dictionaries\<close>

lemma dict_get_update:
  "dict_get (AList.update k v d) k' = (if k' = k then v else dict_get d k')"
  by (simp add: dict_get_def update_conv')

lemma dict_get_issued:
  "dict_get (dict_update d [(''iat'', i), (''exp'', e), (''scope'', s)]) k =
     (if k = ''scope'' then s else if k = ''exp'' then e else if k = ''iat'' then i
      else dict_get d k)"
  by (simp add: dict_update_def dict_get_update)

subsection \<open>The two decoding functions, unfolded\<close>

lemma fst_decode_refresh_token:
  "fst (decode_refresh_token lib a w tok) =
     (case jwt_decode lib (clock w 0) tok (SECRET_KEY a) [ALGORITHM a] of
        None \<Rightarrow> Inl (HTTPException 401 ''Could not validate credentials'' None)
      | Some p \<Rightarrow>
          if dict_get p ''scope'' = PStr ''refresh_token'' then
            (if dict_get p ''sub'' = PNone
             then Inl (HTTPException 401 ''Invalid token payload'' None)
             else Inr (dict_get p ''sub''))
          else Inl (HTTPException 401 ''Invalid scope for token'' None))"
  by (simp add: decode_refresh_token_def utcnow_def Let_def split: option.splits)

lemma snd_decode_refresh_token:
  "snd (decode_refresh_token lib a w tok) = w\<lparr>clock := (\<lambda>k. clock w (Suc k))\<rparr>"
  by (simp add: decode_refresh_token_def utcnow_def Let_def split: option.splits)

lemma fst_get_current_user:
  "fst (get_current_user lib a w tok) =
     (case jwt_decode lib (clock w 0) tok (SECRET_KEY a) [ALGORITHM a] of
        None \<Rightarrow> Inl credentials_exception
      | Some p \<Rightarrow>
          if dict_get p ''scope'' = PStr ''access_token'' then
            (if dict_get p ''sub'' = PNone then Inl credentials_exception
             else (case get_user_by_email (dict_get p ''sub'') (users w) of
                     None \<Rightarrow> Inl credentials_exception
                   | Some u \<Rightarrow> Inr u))
          else Inl credentials_exception)"
  by (simp add: get_current_user_def utcnow_def Let_def split: option.splits)

lemma snd_get_current_user:
  "snd (get_current_user lib a w tok) = w\<lparr>clock := (\<lambda>k. clock w (Suc k))\<rparr>"
  by (simp add: get_current_user_def utcnow_def Let_def split: option.splits)

subsection \<open>The two issuing functions, unfolded\<close>

lemma create_access_token_eq:
  "create_access_token lib a w data ed =
     (case datetime_add (clock w 0) (delta_or_else ed (timedelta_minutes 15)) of
        None \<Rightarrow>
          (Inl OverflowError,
           w\<lparr>clock := (\<lambda>k. clock w (Suc k)), heap := heap w @ [heap w ! data]\<rparr>)
      | Some expire \<Rightarrow>
          (case jwt_encode lib
                  (dict_update (heap w ! data)
                     [(''iat'', PDateTime (clock w 1)), (''exp'', PDateTime expire),
                      (''scope'', PStr ''access_token'')])
                  (SECRET_KEY a) (ALGORITHM a) of
             None \<Rightarrow>
               (Inl EncodingError,
                w\<lparr>clock := (\<lambda>k. clock w (Suc (Suc k))),
                  heap := heap w @ [dict_update (heap w ! data)
                     [(''iat'', PDateTime (clock w 1)), (''exp'', PDateTime expire),
                      (''scope'', PStr ''access_token'')]]\<rparr>)
           | Some tok \<Rightarrow>
               (Inr tok,
                w\<lparr>clock := (\<lambda>k. clock w (Suc (Suc k))),
                  heap := heap w @ [dict_update (heap w ! data)
                     [(''iat'', PDateTime (clock w 1)), (''exp'', PDateTime expire),
                      (''scope'', PStr ''access_token'')]]\<rparr>)))"
  by (simp add: create_access_token_def dict_copy_def utcnow_def dict_update_at_def Let_def
        split: option.splits)

lemma create_refresh_token_eq:
  "create_refresh_token lib a w data ed =
     (case datetime_add (clock w 0) (delta_or_else ed (timedelta_days 15)) of
        None \<Rightarrow>
          (Inl OverflowError,
           w\<lparr>clock := (\<lambda>k. clock w (Suc k)), heap := heap w @ [heap w ! data]\<rparr>)
      | Some expire \<Rightarrow>
          (case jwt_encode lib
                  (dict_update (heap w ! data)
                     [(''iat'', PDateTime (clock w 1)), (''exp'', PDateTime expire),
                      (''scope'', PStr ''refresh_token'')])
                  (SECRET_KEY a) (ALGORITHM a) of
             None \<Rightarrow>
               (Inl EncodingError,
                w\<lparr>clock := (\<lambda>k. clock w (Suc (Suc k))),
                  heap := heap w @ [dict_update (heap w ! data)
                     [(''iat'', PDateTime (clock w 1)), (''exp'', PDateTime expire),
                      (''scope'', PStr ''refresh_token'')]]\<rparr>)
           | Some tok \<Rightarrow>
               (Inr tok,
                w\<lparr>clock := (\<lambda>k. clock w (Suc (Suc k))),
                  heap := heap w @ [dict_update (heap w ! data)
                     [(''iat'', PDateTime (clock w 1)), (''exp'', PDateTime expire),
                      (''scope'', PStr ''refresh_token'')]]\<rparr>)))"
  by (simp add: create_refresh_token_def dict_copy_def utcnow_def dict_update_at_def Let_def
        split: option.splits)

lemma datetime_add_Some: "datetime_add d td = Some e \<Longrightarrow> e = d + td"
  by (simp add: datetime_add_def split: if_splits)

text \<open>
  When a token comes back, the dictionary handed to \<open>jwt.encode\<close> is the copy, the object
  allocated at the reference \<open>length (heap w)\<close>.
\<close>

lemma create_access_token_Inr:
  assumes "create_access_token lib a w data ed = (Inr tok, w')"
  shows "heap w' = heap w @ [dict_update (heap w ! data)
                    [(''iat'', PDateTime (clock w 1)),
                     (''exp'', PDateTime (clock w 0 + delta_or_else ed (timedelta_minutes 15))),
                     (''scope'', PStr ''access_token'')]]"
    and "jwt_encode lib (heap w' ! length (heap w)) (SECRET_KEY a) (ALGORITHM a) = Some tok"
  using assms
  by (auto simp: create_access_token_eq split: option.splits dest: datetime_add_Some)

lemma create_refresh_token_Inr:
  assumes "create_refresh_token lib a w data ed = (Inr tok, w')"
  shows "heap w' = heap w @ [dict_update (heap w ! data)
                    [(''iat'', PDateTime (clock w 1)),
                     (''exp'', PDateTime (clock w 0 + delta_or_else ed (timedelta_days 15))),
                     (''scope'', PStr ''refresh_token'')]]"
    and "jwt_encode lib (heap w' ! length (heap w)) (SECRET_KEY a) (ALGORITHM a) = Some tok"
  using assms
  by (auto simp: create_refresh_token_eq split: option.splits dest: datetime_add_Some)

subsection \<open>The table library keeps the contract\<close>

lemma find_SomeD: "find P xs = Some x \<Longrightarrow> x \<in> set xs \<and> P x"
  by (induction xs) (auto split: if_splits)

lemma find_snd_map_of:
  assumes "distinct (map fst tbl)" and "find (\<lambda>e. snd e = claims) tbl = Some (tok, p)"
  shows "map_of tbl tok = Some claims"
proof -
  from find_SomeD [OF assms(2)] have "(tok, claims) \<in> set tbl"
    by auto
  with assms(1) show ?thesis
    by (simp only: map_of_eq_Some_iff)
qed

lemma table_lib_roundtrip: "distinct (map fst tbl) \<Longrightarrow> codec_roundtrip (table_lib tbl)"
  unfolding codec_roundtrip_def table_lib_def
  by (clarsimp simp del: map_of_eq_Some_iff simp add: find_snd_map_of)

lemma demo_roundtrip: "codec_roundtrip demo_lib"
  unfolding demo_lib_def by (rule table_lib_roundtrip) (simp add: demo_tokens_def)

subsection \<open>The concrete inputs, evaluated\<close>

lemmas claims_defs = access_claims_def refresh_claims_def frozen_claims_def ghost_claims_def
  nosub_access_claims_def nosub_refresh_claims_def

lemma demo_decode:
  "jwt_decode demo_lib 1000 ''junk'' ''s3cret'' [''HS256''] = None"
  "jwt_decode demo_lib 1000 ''access.tok'' ''s3cret'' [''HS256''] = Some access_claims"
  "jwt_decode demo_lib 1000 ''refresh.tok'' ''s3cret'' [''HS256''] = Some refresh_claims"
  "jwt_decode demo_lib 1000 ''frozen.tok'' ''s3cret'' [''HS256''] = Some frozen_claims"
  "jwt_decode demo_lib 1000 ''ghost.tok'' ''s3cret'' [''HS256''] = Some ghost_claims"
  "jwt_decode demo_lib 1000 ''nosub.access'' ''s3cret'' [''HS256''] = Some nosub_access_claims"
  "jwt_decode demo_lib 1000 ''nosub.refresh'' ''s3cret'' [''HS256''] = Some nosub_refresh_claims"
  "jwt_decode demo_lib 1002 ''access.tok'' ''s3cret'' [''HS256''] = Some access_claims"
  by (simp_all add: demo_lib_def table_lib_def demo_tokens_def expired_def dict_get_def claims_defs)

lemma demo_world_simps:
  "clock demo_world 0 = 1000" "clock demo_world (Suc 0) = 1001" "clock demo_world 1 = 1001"
  "heap demo_world = [[(''sub'', PStr ''ann@example.com'')]]"
  "clock revoked_world 0 = 1000" "clock frozen_world 0 = 1000" "clock frozen_world 1 = 1000"
  "SECRET_KEY demo_auth = ''s3cret''" "ALGORITHM demo_auth = ''HS256''"
  by (simp_all add: demo_world_def demo_auth_def revoked_world_def frozen_world_def)

lemma demo_lookup:
  "get_user_by_email (PStr ''ann@example.com'') (users demo_world) = Some demo_user"
  "get_user_by_email (PStr ''bob@example.com'') (users demo_world) = None"
  by (simp_all add: get_user_by_email_def demo_world_def demo_user_def)

lemma demo_issue:
  "create_access_token demo_lib demo_auth demo_world 0 (Some 60)
     = (Inr ''access.tok'',
        demo_world\<lparr>clock := (\<lambda>k. clock demo_world (Suc (Suc k))),
                    heap := heap demo_world @ [access_claims]\<rparr>)"
  "create_refresh_token demo_lib demo_auth demo_world 0 None
     = (Inr ''refresh.tok'',
        demo_world\<lparr>clock := (\<lambda>k. clock demo_world (Suc (Suc k))),
                    heap := heap demo_world @ [refresh_claims]\<rparr>)"
  "create_access_token demo_lib demo_auth frozen_world 0 (Some 0)
     = (Inr ''frozen.tok'',
        frozen_world\<lparr>clock := (\<lambda>k. clock frozen_world (Suc (Suc k))),
                    heap := heap frozen_world @ [frozen_claims]\<rparr>)"
  by (simp_all add: create_access_token_eq create_refresh_token_eq datetime_add_def
        datetime_min_def datetime_max_def delta_or_else_def timedelta_minutes_def
        timedelta_days_def dict_update_def demo_world_def frozen_world_def demo_auth_def
        demo_lib_def table_lib_def demo_tokens_def claims_defs)

section \<open>Scope checking\<close>

text \<open>
  Claim C1, as the spec states it: for every claims mapping, a token produced by
  \<open>create_access_token\<close> is rejected by \<open>decode_refresh_token\<close> with an \<open>InvalidScope\<close>
  failure. It fails once the token has expired: the access token issued in \<open>demo_world\<close>
  with 60 microseconds to live, by a library that keeps the round-trip contract, is answered
  at clock 2000 with the 401 \<open>Could not validate credentials\<close>, since \<open>jwt.decode\<close> raises
  before the scope is looked at.
\<close>

theorem expired_access_token_not_invalid_scope:
  "codec_roundtrip demo_lib
   \<and> fst (create_access_token demo_lib demo_auth demo_world 0 (Some 60)) = Inr ''access.tok''
   \<and> clock late_world 0 = 2000
   \<and> fst (decode_refresh_token demo_lib demo_auth late_world ''access.tok'')
       = Inl (HTTPException 401 ''Could not validate credentials'' None)
   \<and> fst (decode_refresh_token demo_lib demo_auth late_world ''access.tok'')
       \<noteq> Inl (HTTPException 401 ''Invalid scope for token'' None)"
proof -
  have "jwt_decode demo_lib 2000 ''access.tok'' ''s3cret'' [''HS256''] = None"
    by (simp add: demo_lib_def table_lib_def demo_tokens_def expired_def dict_get_def
          access_claims_def)
  moreover have "clock late_world 0 = 2000"
    by (simp add: late_world_def)
  ultimately show ?thesis
    using demo_roundtrip demo_issue(1)
    by (simp add: fst_decode_refresh_token demo_world_simps)
qed

text \<open>
  Claim C1, amended. Scope checking is total. For every token string, \<open>get_current_user\<close>
  returns a user only if the claims that \<open>jwt.decode\<close> returned have \<open>scope\<close> equal to
  \<open>access_token\<close>, and \<open>decode_refresh_token\<close> returns a subject only if they have \<open>scope\<close>
  equal to \<open>refresh_token\<close>: no path returns without the check. In particular, with a library
  that keeps the round-trip contract, a token that \<open>create_access_token\<close> produced, for any
  claims dictionary and any \<open>expires_delta\<close>, and that has not expired when it is decoded, is
  rejected by \<open>decode_refresh_token\<close> with the 401 \<open>Invalid scope for token\<close>.
\<close>

theorem scope_check_total:
  "(fst (get_current_user lib a w token) = Inr u \<longrightarrow>
      (\<exists>p. jwt_decode lib (clock w 0) token (SECRET_KEY a) [ALGORITHM a] = Some p
         \<and> dict_get p ''scope'' = PStr ''access_token''))
   \<and> (fst (decode_refresh_token lib a w token) = Inr s \<longrightarrow>
      (\<exists>p. jwt_decode lib (clock w 0) token (SECRET_KEY a) [ALGORITHM a] = Some p
         \<and> dict_get p ''scope'' = PStr ''refresh_token''))
   \<and> (codec_roundtrip lib \<and> create_access_token lib a w0 data ed = (Inr atok, w0')
        \<and> clock w 0 \<le> clock w0 0 + delta_or_else ed (timedelta_minutes 15) \<longrightarrow>
      fst (decode_refresh_token lib a w atok)
        = Inl (HTTPException 401 ''Invalid scope for token'' None))"
proof -
  have "\<exists>p. jwt_decode lib (clock w 0) token (SECRET_KEY a) [ALGORITHM a] = Some p
         \<and> dict_get p ''scope'' = PStr ''access_token''"
    if "fst (get_current_user lib a w token) = Inr u"
    using that by (auto simp: fst_get_current_user split: option.splits if_splits)
  moreover have "\<exists>p. jwt_decode lib (clock w 0) token (SECRET_KEY a) [ALGORITHM a] = Some p
         \<and> dict_get p ''scope'' = PStr ''refresh_token''"
    if "fst (decode_refresh_token lib a w token) = Inr s"
    using that by (auto simp: fst_decode_refresh_token split: option.splits if_splits)
  moreover have "fst (decode_refresh_token lib a w atok)
        = Inl (HTTPException 401 ''Invalid scope for token'' None)"
    if rt: "codec_roundtrip lib"
      and iss: "create_access_token lib a w0 data ed = (Inr atok, w0')"
      and le: "clock w 0 \<le> clock w0 0 + delta_or_else ed (timedelta_minutes 15)"
  proof -
    let ?p = "heap w0' ! length (heap w0)"
    from create_access_token_Inr [OF iss]
    have enc: "jwt_encode lib ?p (SECRET_KEY a) (ALGORITHM a) = Some atok"
      and scope: "dict_get ?p ''scope'' = PStr ''access_token''"
      and exp: "dict_get ?p ''exp''
                  = PDateTime (clock w0 0 + delta_or_else ed (timedelta_minutes 15))"
      by (simp_all add: dict_get_issued)
    from exp le have "\<not> expired ?p (clock w 0)"
      by (simp add: expired_def)
    with rt enc have "jwt_decode lib (clock w 0) atok (SECRET_KEY a) [ALGORITHM a] = Some ?p"
      unfolding codec_roundtrip_def by blast
    with scope show ?thesis
      by (simp add: fst_decode_refresh_token)
  qed
  ultimately show ?thesis
    by blast
qed

theorem scope_check_total_witness:
  "fst (get_current_user demo_lib demo_auth demo_world ''access.tok'') = Inr demo_user
   \<and> (\<exists>p. jwt_decode demo_lib (clock demo_world 0) ''access.tok'' (SECRET_KEY demo_auth)
            [ALGORITHM demo_auth] = Some p
         \<and> dict_get p ''scope'' = PStr ''access_token'')
   \<and> fst (decode_refresh_token demo_lib demo_auth demo_world ''refresh.tok'')
       = Inr (PStr ''ann@example.com'')
   \<and> (\<exists>p. jwt_decode demo_lib (clock demo_world 0) ''refresh.tok'' (SECRET_KEY demo_auth)
            [ALGORITHM demo_auth] = Some p
         \<and> dict_get p ''scope'' = PStr ''refresh_token'')
   \<and> codec_roundtrip demo_lib
   \<and> fst (create_access_token demo_lib demo_auth demo_world 0 (Some 60)) = Inr ''access.tok''
   \<and> clock demo_world 0 \<le> clock demo_world 0 + delta_or_else (Some 60) (timedelta_minutes 15)
   \<and> fst (decode_refresh_token demo_lib demo_auth demo_world ''access.tok'')
       = Inl (HTTPException 401 ''Invalid scope for token'' None)"
proof -
  have u: "fst (get_current_user demo_lib demo_auth demo_world ''access.tok'') = Inr demo_user"
    by (simp add: fst_get_current_user demo_world_simps demo_decode demo_lookup dict_get_def
          claims_defs)
  have s: "fst (decode_refresh_token demo_lib demo_auth demo_world ''refresh.tok'')
             = Inr (PStr ''ann@example.com'')"
    by (simp add: fst_decode_refresh_token demo_world_simps demo_decode dict_get_def claims_defs)
  have le: "clock demo_world 0
              \<le> clock demo_world 0 + delta_or_else (Some 60) (timedelta_minutes 15)"
    by (simp add: delta_or_else_def)
  show ?thesis
    using u s le demo_roundtrip demo_issue(1)
      scope_check_total [where lib = demo_lib and a = demo_auth and w = demo_world
        and token = "''access.tok''" and u = demo_user]
      scope_check_total [where lib = demo_lib and a = demo_auth and w = demo_world
        and token = "''refresh.tok''" and s = "PStr ''ann@example.com''"
        and ?w0.0 = demo_world and data = 0 and ed = "Some 60" and atok = "''access.tok''"
        and w0' = "demo_world\<lparr>clock := (\<lambda>k. clock demo_world (Suc (Suc k))),
                      heap := heap demo_world @ [access_claims]\<rparr>"]
    by simp
qed

section \<open>The outcomes of \<open>get_current_user\<close>\<close>

text \<open>
  Claim C2. For every token string, \<open>get_current_user\<close> raises \<open>credentials_exception\<close>, an
  \<open>HTTPException\<close> of status 401, if decoding fails, or the decoded scope is not
  \<open>access_token\<close>, or \<open>payload.get("sub")\<close> is \<open>None\<close>, or the lookup of the subject returns
  none; otherwise it returns the user that the lookup found. It writes nothing: the heap and
  the users table are as they were.
\<close>

theorem get_current_user_outcomes:
  "fst (get_current_user lib a w token) =
     (case jwt_decode lib (clock w 0) token (SECRET_KEY a) [ALGORITHM a] of
        None \<Rightarrow> Inl credentials_exception
      | Some p \<Rightarrow>
          if dict_get p ''scope'' \<noteq> PStr ''access_token'' \<or> dict_get p ''sub'' = PNone
          then Inl credentials_exception
          else (case get_user_by_email (dict_get p ''sub'') (users w) of
                  None \<Rightarrow> Inl credentials_exception
                | Some u \<Rightarrow> Inr u))
   \<and> status_code credentials_exception = 401
   \<and> heap (snd (get_current_user lib a w token)) = heap w
   \<and> users (snd (get_current_user lib a w token)) = users w"
  by (simp add: fst_get_current_user snd_get_current_user credentials_exception_def
        split: option.splits)

theorem get_current_user_outcomes_witness:
  "fst (get_current_user demo_lib demo_auth demo_world ''junk'') = Inl credentials_exception
   \<and> fst (get_current_user demo_lib demo_auth demo_world ''refresh.tok'') = Inl credentials_exception
   \<and> fst (get_current_user demo_lib demo_auth demo_world ''nosub.access'') = Inl credentials_exception
   \<and> fst (get_current_user demo_lib demo_auth demo_world ''ghost.tok'') = Inl credentials_exception
   \<and> fst (get_current_user demo_lib demo_auth demo_world ''access.tok'') = Inr demo_user
   \<and> status_code credentials_exception = 401
   \<and> heap (snd (get_current_user demo_lib demo_auth demo_world ''access.tok'')) = heap demo_world
   \<and> users (snd (get_current_user demo_lib demo_auth demo_world ''access.tok'')) = users demo_world"
  using
    get_current_user_outcomes [of demo_lib demo_auth demo_world "''junk''"]
    get_current_user_outcomes [of demo_lib demo_auth demo_world "''refresh.tok''"]
    get_current_user_outcomes [of demo_lib demo_auth demo_world "''nosub.access''"]
    get_current_user_outcomes [of demo_lib demo_auth demo_world "''ghost.tok''"]
    get_current_user_outcomes [of demo_lib demo_auth demo_world "''access.tok''"]
  by (simp add: demo_world_simps demo_decode demo_lookup dict_get_def claims_defs)

section \<open>The outcomes of \<open>decode_refresh_token\<close>\<close>

text \<open>
  Claim C3. For every token string, \<open>decode_refresh_token\<close> raises the 401
  \<open>Could not validate credentials\<close> when decoding fails, the 401 \<open>Invalid scope for token\<close>
  (the spec's \<open>InvalidScope\<close>) when the decoded scope is not \<open>refresh_token\<close>, the 401
  \<open>Invalid token payload\<close> when the scope is right and \<open>payload.get("sub")\<close> is \<open>None\<close>
  (both are the spec's \<open>Malformed\<close>), and otherwise returns the \<open>sub\<close> claim.
\<close>

theorem decode_refresh_token_outcomes:
  "(jwt_decode lib (clock w 0) token (SECRET_KEY a) [ALGORITHM a] = None \<longrightarrow>
      fst (decode_refresh_token lib a w token)
        = Inl (HTTPException 401 ''Could not validate credentials'' None))
   \<and> (jwt_decode lib (clock w 0) token (SECRET_KEY a) [ALGORITHM a] = Some p \<longrightarrow>
        (dict_get p ''scope'' \<noteq> PStr ''refresh_token'' \<longrightarrow>
           fst (decode_refresh_token lib a w token)
             = Inl (HTTPException 401 ''Invalid scope for token'' None))
      \<and> (dict_get p ''scope'' = PStr ''refresh_token'' \<and> dict_get p ''sub'' = PNone \<longrightarrow>
           fst (decode_refresh_token lib a w token)
             = Inl (HTTPException 401 ''Invalid token payload'' None))
      \<and> (dict_get p ''scope'' = PStr ''refresh_token'' \<and> dict_get p ''sub'' \<noteq> PNone \<longrightarrow>
           fst (decode_refresh_token lib a w token) = Inr (dict_get p ''sub'')))"
  by (simp add: fst_decode_refresh_token)

theorem decode_refresh_token_outcomes_witness:
  "jwt_decode demo_lib (clock demo_world 0) ''junk'' (SECRET_KEY demo_auth) [ALGORITHM demo_auth]
     = None
   \<and> fst (decode_refresh_token demo_lib demo_auth demo_world ''junk'')
        = Inl (HTTPException 401 ''Could not validate credentials'' None)
   \<and> jwt_decode demo_lib (clock demo_world 0) ''access.tok'' (SECRET_KEY demo_auth)
        [ALGORITHM demo_auth] = Some access_claims
   \<and> dict_get access_claims ''scope'' \<noteq> PStr ''refresh_token''
   \<and> fst (decode_refresh_token demo_lib demo_auth demo_world ''access.tok'')
        = Inl (HTTPException 401 ''Invalid scope for token'' None)
   \<and> fst (decode_refresh_token demo_lib demo_auth demo_world ''nosub.refresh'')
        = Inl (HTTPException 401 ''Invalid token payload'' None)
   \<and> fst (decode_refresh_token demo_lib demo_auth demo_world ''refresh.tok'')
        = Inr (PStr ''ann@example.com'')"
  using
    decode_refresh_token_outcomes [of demo_lib demo_world "''junk''" demo_auth]
    decode_refresh_token_outcomes [of demo_lib demo_world "''access.tok''" demo_auth access_claims]
    decode_refresh_token_outcomes
      [of demo_lib demo_world "''nosub.refresh''" demo_auth nosub_refresh_claims]
    decode_refresh_token_outcomes [of demo_lib demo_world "''refresh.tok''" demo_auth refresh_claims]
  by (simp add: demo_world_simps demo_decode dict_get_def claims_defs)

section \<open>What a failure shows to the caller\<close>

text \<open>
  Claim C4, as the spec states it: any two failures of \<open>get_current_user\<close> or
  \<open>decode_refresh_token\<close> are the same to the caller, status and payload. It fails:
  \<open>decode_refresh_token\<close> answers a token that does not decode, an access token and a refresh
  token with no \<open>sub\<close> claim with three different \<open>detail\<close> strings.
\<close>

theorem refresh_failures_distinguishable:
  "fst (decode_refresh_token demo_lib demo_auth demo_world ''junk'')
     = Inl (HTTPException 401 ''Could not validate credentials'' None)
   \<and> fst (decode_refresh_token demo_lib demo_auth demo_world ''access.tok'')
     = Inl (HTTPException 401 ''Invalid scope for token'' None)
   \<and> fst (decode_refresh_token demo_lib demo_auth demo_world ''nosub.refresh'')
     = Inl (HTTPException 401 ''Invalid token payload'' None)
   \<and> fst (decode_refresh_token demo_lib demo_auth demo_world ''junk'')
     \<noteq> fst (decode_refresh_token demo_lib demo_auth demo_world ''access.tok'')"
  by (simp add: fst_decode_refresh_token demo_world_simps demo_decode dict_get_def claims_defs)

text \<open>
  Claim C4, amended. Every failure of \<open>get_current_user\<close> is the one
  \<open>credentials_exception\<close> (status 401, \<open>Could not validate credentials\<close>, the header
  \<open>WWW-Authenticate: Bearer\<close>), whatever the reason. Every failure of \<open>decode_refresh_token\<close>
  has status 401 and no headers, and its \<open>detail\<close> names the reason:
  \<open>Could not validate credentials\<close> when decoding fails, \<open>Invalid scope for token\<close> when the
  decoded scope is not \<open>refresh_token\<close>, \<open>Invalid token payload\<close> when the scope is right and
  \<open>payload.get("sub")\<close> is \<open>None\<close>; it fails in no other case.
\<close>

theorem failure_outcomes:
  "(fst (get_current_user lib a w token) = Inl e \<longrightarrow> e = credentials_exception)
   \<and> credentials_exception
       = HTTPException 401 ''Could not validate credentials''
           (Some [(''WWW-Authenticate'', ''Bearer'')])
   \<and> (fst (decode_refresh_token lib a w token') = Inl e' \<longleftrightarrow>
        e' = HTTPException 401 ''Could not validate credentials'' None
          \<and> jwt_decode lib (clock w 0) token' (SECRET_KEY a) [ALGORITHM a] = None
        \<or> e' = HTTPException 401 ''Invalid scope for token'' None
          \<and> (\<exists>p. jwt_decode lib (clock w 0) token' (SECRET_KEY a) [ALGORITHM a] = Some p
                 \<and> dict_get p ''scope'' \<noteq> PStr ''refresh_token'')
        \<or> e' = HTTPException 401 ''Invalid token payload'' None
          \<and> (\<exists>p. jwt_decode lib (clock w 0) token' (SECRET_KEY a) [ALGORITHM a] = Some p
                 \<and> dict_get p ''scope'' = PStr ''refresh_token''
                 \<and> dict_get p ''sub'' = PNone))"
proof -
  have "e = credentials_exception" if "fst (get_current_user lib a w token) = Inl e"
    using that by (auto simp: fst_get_current_user split: option.splits if_splits)
  moreover have "fst (decode_refresh_token lib a w token') = Inl e' \<longleftrightarrow>
        e' = HTTPException 401 ''Could not validate credentials'' None
          \<and> jwt_decode lib (clock w 0) token' (SECRET_KEY a) [ALGORITHM a] = None
        \<or> e' = HTTPException 401 ''Invalid scope for token'' None
          \<and> (\<exists>p. jwt_decode lib (clock w 0) token' (SECRET_KEY a) [ALGORITHM a] = Some p
                 \<and> dict_get p ''scope'' \<noteq> PStr ''refresh_token'')
        \<or> e' = HTTPException 401 ''Invalid token payload'' None
          \<and> (\<exists>p. jwt_decode lib (clock w 0) token' (SECRET_KEY a) [ALGORITHM a] = Some p
                 \<and> dict_get p ''scope'' = PStr ''refresh_token''
                 \<and> dict_get p ''sub'' = PNone)"
    by (cases "jwt_decode lib (clock w 0) token' (SECRET_KEY a) [ALGORITHM a]")
      (auto simp: fst_decode_refresh_token)
  ultimately show ?thesis
    by (simp add: credentials_exception_def)
qed

theorem failure_outcomes_witness:
  "fst (get_current_user demo_lib demo_auth demo_world ''refresh.tok'')
     = Inl (HTTPException 401 ''Could not validate credentials''
              (Some [(''WWW-Authenticate'', ''Bearer'')]))
   \<and> jwt_decode demo_lib (clock demo_world 0) ''junk'' (SECRET_KEY demo_auth)
        [ALGORITHM demo_auth] = None
   \<and> fst (decode_refresh_token demo_lib demo_auth demo_world ''junk'')
       = Inl (HTTPException 401 ''Could not validate credentials'' None)
   \<and> jwt_decode demo_lib (clock demo_world 0) ''access.tok'' (SECRET_KEY demo_auth)
        [ALGORITHM demo_auth] = Some access_claims
   \<and> dict_get access_claims ''scope'' \<noteq> PStr ''refresh_token''
   \<and> fst (decode_refresh_token demo_lib demo_auth demo_world ''access.tok'')
       = Inl (HTTPException 401 ''Invalid scope for token'' None)
   \<and> jwt_decode demo_lib (clock demo_world 0) ''nosub.refresh'' (SECRET_KEY demo_auth)
        [ALGORITHM demo_auth] = Some nosub_refresh_claims
   \<and> dict_get nosub_refresh_claims ''scope'' = PStr ''refresh_token''
   \<and> dict_get nosub_refresh_claims ''sub'' = PNone
   \<and> fst (decode_refresh_token demo_lib demo_auth demo_world ''nosub.refresh'')
       = Inl (HTTPException 401 ''Invalid token payload'' None)"
proof -
  have g: "fst (get_current_user demo_lib demo_auth demo_world ''refresh.tok'')
             = Inl credentials_exception"
    by (simp add: fst_get_current_user demo_world_simps demo_decode dict_get_def claims_defs)
  have j: "jwt_decode demo_lib (clock demo_world 0) ''junk'' (SECRET_KEY demo_auth)
             [ALGORITHM demo_auth] = None"
    and a: "jwt_decode demo_lib (clock demo_world 0) ''access.tok'' (SECRET_KEY demo_auth)
             [ALGORITHM demo_auth] = Some access_claims"
    and n: "jwt_decode demo_lib (clock demo_world 0) ''nosub.refresh'' (SECRET_KEY demo_auth)
             [ALGORITHM demo_auth] = Some nosub_refresh_claims"
    by (simp_all add: demo_world_simps demo_decode)
  have sa: "dict_get access_claims ''scope'' \<noteq> PStr ''refresh_token''"
    and sn: "dict_get nosub_refresh_claims ''scope'' = PStr ''refresh_token''"
    and nn: "dict_get nosub_refresh_claims ''sub'' = PNone"
    by (simp_all add: dict_get_def claims_defs)
  note t = failure_outcomes [where lib = demo_lib and a = demo_auth and w = demo_world
      and token = "''refresh.tok''" and e = credentials_exception]
  from t [where token' = "''junk''"
      and e' = "HTTPException 401 ''Could not validate credentials'' None"] g j
  have 1: "fst (get_current_user demo_lib demo_auth demo_world ''refresh.tok'')
             = Inl (HTTPException 401 ''Could not validate credentials''
                      (Some [(''WWW-Authenticate'', ''Bearer'')]))"
    and 2: "fst (decode_refresh_token demo_lib demo_auth demo_world ''junk'')
             = Inl (HTTPException 401 ''Could not validate credentials'' None)"
    by simp_all
  from t [where token' = "''access.tok''"
      and e' = "HTTPException 401 ''Invalid scope for token'' None"] a sa
  have 3: "fst (decode_refresh_token demo_lib demo_auth demo_world ''access.tok'')
             = Inl (HTTPException 401 ''Invalid scope for token'' None)"
    by simp
  from t [where token' = "''nosub.refresh''"
      and e' = "HTTPException 401 ''Invalid token payload'' None"] n sn nn
  have 4: "fst (decode_refresh_token demo_lib demo_auth demo_world ''nosub.refresh'')
             = Inl (HTTPException 401 ''Invalid token payload'' None)"
    by simp
  from 1 2 3 4 j a n sa sn nn show ?thesis
    by blast
qed

section \<open>The claims of an issued token\<close>

text \<open>
  Claim C5. For every claims mapping, \<open>create_access_token\<close> produces a token whose claims
  carry \<open>exp = now + ttl\<close>, with \<open>ttl\<close> the \<open>expires_delta\<close> that was supplied and 15 minutes
  only when none was. The code chooses the default by the truth value of \<open>expires_delta\<close>
  and so misses the zero \<open>timedelta\<close>: with the clock standing at 1000 and
  \<open>expires_delta = timedelta(0)\<close>, a token is produced, and the dictionary handed to
  \<open>jwt.encode\<close> (the copy, at reference 1) has \<open>exp\<close> 15 minutes (900000000 microseconds)
  after the reading, where the claim has \<open>exp\<close> at the reading.
\<close>

theorem zero_delta_gets_default:
  "fst (create_access_token demo_lib demo_auth frozen_world 0 (Some 0)) = Inr ''frozen.tok''
   \<and> clock frozen_world 0 = 1000 \<and> clock frozen_world 1 = 1000
   \<and> dict_get (heap (snd (create_access_token demo_lib demo_auth frozen_world 0 (Some 0))) ! 1)
        ''exp'' = PDateTime (1000 + 900000000)
   \<and> dict_get (heap (snd (create_access_token demo_lib demo_auth frozen_world 0 (Some 0))) ! 1)
        ''exp'' \<noteq> PDateTime (1000 + 0)"
  by (simp add: demo_issue demo_world_simps)
    (simp add: frozen_world_def frozen_claims_def dict_get_def)

section \<open>Decoding a fresh access token\<close>

text \<open>
  Claim C6. With a library that keeps the round-trip contract, for every claims dictionary
  and every \<open>ttl\<close> \<open>t > 0\<close>: decoding the token that \<open>create_access_token\<close> produced, with
  the key and the algorithm of \<open>get_current_user\<close> and at a reading of the clock before \<open>t\<close>
  has elapsed since issuance, succeeds, and the decoded claims have \<open>scope = access_token\<close>
  and the \<open>sub\<close> of the caller's dictionary.
\<close>

theorem access_token_decodes:
  assumes "codec_roundtrip lib" and "0 < t"
    and "create_access_token lib a w data (Some t) = (Inr tok, w')"
    and "now < clock w 0 + t"
  shows "\<exists>p. jwt_decode lib now tok (SECRET_KEY a) [ALGORITHM a] = Some p
           \<and> dict_get p ''scope'' = PStr ''access_token''
           \<and> dict_get p ''sub'' = dict_get (heap w ! data) ''sub''"
proof -
  let ?p = "heap w' ! length (heap w)"
  from assms(2) have t: "delta_or_else (Some t) (timedelta_minutes 15) = t"
    by (simp add: delta_or_else_def)
  from create_access_token_Inr [OF assms(3)]
  have enc: "jwt_encode lib ?p (SECRET_KEY a) (ALGORITHM a) = Some tok"
    and scope: "dict_get ?p ''scope'' = PStr ''access_token''"
    and exp: "dict_get ?p ''exp'' = PDateTime (clock w 0 + t)"
    and sub: "dict_get ?p ''sub'' = dict_get (heap w ! data) ''sub''"
    by (simp_all add: dict_get_issued t)
  from exp assms(4) have "\<not> expired ?p now"
    by (simp add: expired_def)
  with assms(1) enc have "jwt_decode lib now tok (SECRET_KEY a) [ALGORITHM a] = Some ?p"
    unfolding codec_roundtrip_def by blast
  with scope sub show ?thesis
    by blast
qed

theorem access_token_decodes_witness:
  "codec_roundtrip demo_lib \<and> (0::int) < 60
   \<and> fst (create_access_token demo_lib demo_auth demo_world 0 (Some 60)) = Inr ''access.tok''
   \<and> (1002::int) < clock demo_world 0 + 60
   \<and> (\<exists>p. jwt_decode demo_lib 1002 ''access.tok'' (SECRET_KEY demo_auth) [ALGORITHM demo_auth]
             = Some p
          \<and> dict_get p ''scope'' = PStr ''access_token''
          \<and> dict_get p ''sub'' = dict_get (heap demo_world ! 0) ''sub'')"
proof -
  have lt: "(1002::int) < clock demo_world 0 + 60"
    by (simp add: demo_world_def)
  show ?thesis
    using access_token_decodes [OF demo_roundtrip _ demo_issue(1) lt] demo_roundtrip lt
    by (simp add: demo_issue)
qed

section \<open>Refresh tokens and the users table\<close>

text \<open>
  Claim C9. Revocation of refresh tokens is not enforced: what \<open>decode_refresh_token\<close>
  returns or raises depends on the token string, the key, the algorithm and the reading of
  the clock only. Two states that agree on that reading give the same outcome, whatever
  their users tables hold in \<open>refresh_token\<close>; and the function leaves the table as it was.
\<close>

theorem refresh_decoding_ignores_users:
  "(clock w1 0 = clock w2 0 \<longrightarrow>
      fst (decode_refresh_token lib a w1 token) = fst (decode_refresh_token lib a w2 token))
   \<and> users (snd (decode_refresh_token lib a w1 token)) = users w1"
  by (simp add: fst_decode_refresh_token snd_decode_refresh_token)

theorem refresh_decoding_ignores_users_witness:
  "clock demo_world 0 = clock revoked_world 0
   \<and> map u_refresh_token (users demo_world) = [Some ''refresh.tok'']
   \<and> map u_refresh_token (users revoked_world) = [None]
   \<and> fst (decode_refresh_token demo_lib demo_auth demo_world ''refresh.tok'')
       = fst (decode_refresh_token demo_lib demo_auth revoked_world ''refresh.tok'')
   \<and> fst (decode_refresh_token demo_lib demo_auth revoked_world ''refresh.tok'')
       = Inr (PStr ''ann@example.com'')"
  using refresh_decoding_ignores_users
          [of demo_world revoked_world demo_lib demo_auth "''refresh.tok''"]
  by (simp add: fst_decode_refresh_token demo_world_simps demo_decode dict_get_def claims_defs
        demo_world_def revoked_world_def demo_user_def)

section \<open>The caller's dictionary\<close>

text \<open>
  Claim C10. Token issuance does not mutate its input: \<open>create_access_token\<close> and
  \<open>create_refresh_token\<close> leave every dictionary that existed before the call as it was, the
  caller's \<open>data\<close> among them; \<open>iat\<close>, \<open>exp\<close> and \<open>scope\<close> go into the copy only.
\<close>

theorem issuance_keeps_caller_dict:
  "take (length (heap w)) (heap (snd (create_access_token lib a w data ed))) = heap w
   \<and> take (length (heap w)) (heap (snd (create_refresh_token lib a w data ed))) = heap w
   \<and> (data < length (heap w) \<longrightarrow>
        heap (snd (create_access_token lib a w data ed)) ! data = heap w ! data
        \<and> heap (snd (create_refresh_token lib a w data ed)) ! data = heap w ! data)"
  by (simp add: create_access_token_eq create_refresh_token_eq nth_append
        split: option.splits)

theorem issuance_keeps_caller_dict_witness:
  "(0::nat) < length (heap demo_world)
   \<and> heap demo_world ! 0 = [(''sub'', PStr ''ann@example.com'')]
   \<and> heap (snd (create_access_token demo_lib demo_auth demo_world 0 (Some 60))) ! 0
       = [(''sub'', PStr ''ann@example.com'')]
   \<and> heap (snd (create_refresh_token demo_lib demo_auth demo_world 0 None)) ! 0
       = [(''sub'', PStr ''ann@example.com'')]
   \<and> heap (snd (create_access_token demo_lib demo_auth demo_world 0 (Some 60))) ! 1
       = access_claims"
  using issuance_keeps_caller_dict [of demo_world demo_lib demo_auth 0 "Some 60"]
    issuance_keeps_caller_dict [of demo_world demo_lib demo_auth 0 None]
  by (simp add: demo_issue) (simp add: demo_world_def)

end
